theory Spec2Isabelle
  imports Complex_Main
begin

section \<open>The GPT request layer of \<open>src/server/openai/request.ts\<close>\<close>

text \<open>
  The module exports four asynchronous functions: \<open>getMaxTokensForResponse\<close>,
  \<open>sendGptRequest\<close>, \<open>sendGptRequestWithSchema\<close> and \<open>sendGptVisionRequest\<close>.
  Each \<open>await\<close> is sequential, so a call is modelled as a function that returns the
  list of effects it performed, in order, together with its result.  A thrown error is
  the \<open>Inl\<close> of a sum; a returned value is the \<open>Inr\<close>.  \<open>console.log\<close> and
  \<open>console.error\<close> are not recorded.
\<close>

subsection \<open>Model tables\<close>

datatype Model = Gpt4_0613 | Gpt4VisionPreview | Gpt4TurboPreview

fun CONTEXT_WINDOW :: "Model \<Rightarrow> int" where
  "CONTEXT_WINDOW Gpt4_0613 = 8192"
| "CONTEXT_WINDOW Gpt4VisionPreview = 128000"
| "CONTEXT_WINDOW Gpt4TurboPreview = 128000"

fun MAX_OUTPUT :: "Model \<Rightarrow> int" where
  "MAX_OUTPUT Gpt4_0613 = 8192"
| "MAX_OUTPUT Gpt4VisionPreview = 4096"
| "MAX_OUTPUT Gpt4TurboPreview = 4096"

definition ONE_MILLION :: rat where
  "ONE_MILLION = 1000000"

fun INPUT_TOKEN_COSTS :: "Model \<Rightarrow> rat" where
  "INPUT_TOKEN_COSTS Gpt4_0613 = 30 / ONE_MILLION"
| "INPUT_TOKEN_COSTS Gpt4VisionPreview = 10 / ONE_MILLION"
| "INPUT_TOKEN_COSTS Gpt4TurboPreview = 10 / ONE_MILLION"

fun OUTPUT_TOKEN_COSTS :: "Model \<Rightarrow> rat" where
  "OUTPUT_TOKEN_COSTS Gpt4_0613 = 60 / ONE_MILLION"
| "OUTPUT_TOKEN_COSTS Gpt4VisionPreview = 30 / ONE_MILLION"
| "OUTPUT_TOKEN_COSTS Gpt4TurboPreview = 30 / ONE_MILLION"

subsection \<open>Errors, messages, requests and responses\<close>

text \<open>
  A thrown JavaScript value.  The only property the module inspects is
  \<open>error?.response?.status\<close>; \<open>new Error(msg)\<close> has no \<open>response\<close>, which is
  \<open>None\<close> here.
\<close>

datatype js_error = JsError (message: string) (response_status: "int option")

datatype role = RoleSystem | RoleUser

datatype content_part =
    ImageUrlPart (url: string) (detail: string)
  | TextPart string

datatype message_content = Plain string | Parts "content_part list"

datatype chat_message = Message (role: role) (content: message_content)

record 't chat_request =
  model :: Model
  messages :: "chat_message list"
  max_tokens :: int
  temperature :: 't

text \<open>
  What the module reads of a completion: \<open>choices[0]?.message?.content\<close> (absent or
  null is \<open>None\<close>), \<open>usage?.prompt_tokens\<close> and \<open>usage?.completion_tokens\<close>.
\<close>

record completion =
  choice_content :: "string option"
  prompt_tokens :: "nat option"
  completion_tokens :: "nat option"

text \<open>
  The event written to \<open>db.events\<close>.  The timestamp and the duration come from the
  clock and are left out; the cost is the exact rational where the source computes in
  binary64; the prompts keep role and content as they are in the request, where the
  source upper-cases the role and stringifies a structured content.
\<close>

record 'ev usage_event =
  base :: 'ev
  cost :: rat
  tokens :: nat
  event_model :: Model
  request_prompts :: "chat_message list"
  response_prompt :: string

datatype ('t, 'ev) effect =
    is_Call: Call "'t chat_request"
  | is_Insert: Insert "'ev usage_event"
  | is_Wait: Wait int

datatype json =
    JUndefined
  | JNull
  | JBool bool
  | JNumber rat
  | JString string
  | JArray "json list"
  | JObject "(string \<times> json) list"

text \<open>
  What the module imports and calls but does not define: \<open>encode\<close> of
  \<open>gpt-tokenizer\<close> (inside a \<open>try\<close>, so it may throw), \<open>db.events.insert\<close>
  (\<open>Some\<close> error when it throws), \<open>removeMarkdownCodeblocks\<close> and
  \<open>parseTemplate\<close> of \<open>../utils\<close>, and \<open>parse\<close> of \<open>jsonc-parser\<close>.
  The last three, and the \<open>safeParse\<close> of a schema, are taken to return: \<open>parse\<close>
  yields \<open>undefined\<close> rather than throwing, and \<open>safeParse\<close> reports a failure as a
  value.
\<close>

record 'ev deps =
  encode :: "string \<Rightarrow> js_error + nat list"
  db_events_insert :: "'ev usage_event \<Rightarrow> js_error option"
  removeMarkdownCodeblocks :: "string \<Rightarrow> string"
  parse :: "string \<Rightarrow> json"
  parseTemplate :: "string \<Rightarrow> string \<Rightarrow> string \<Rightarrow> string"

text \<open>
  The provider is a script: the outcome of the first, second, ... call of
  \<open>openai.chat.completions.create\<close>, a thrown error or a completion.
\<close>

type_synonym script = "(js_error + completion) list"

subsection \<open>\<open>getMaxTokensForResponse\<close>\<close>

text \<open>
  \<open>Math.ceil(maxContextTokens * 0.01)\<close> and \<open>Math.round(CONTEXT_WINDOW[model] / 2)\<close>
  over the rationals.  For the three context windows of the table the binary64 results
  of the source are the same numbers (82, 1280, 4096, 64000).
\<close>

definition padding_of :: "int \<Rightarrow> int" where
  "padding_of maxContextTokens = \<lceil>rat_of_int maxContextTokens * (1 / 100)\<rceil>"

definition half_window :: "Model \<Rightarrow> int" where
  "half_window m = round (rat_of_int (CONTEXT_WINDOW m) / 2)"

definition input_too_large :: js_error where
  "input_too_large =
     JsError ''Input text is too large to fit within the context window.'' None"

text \<open>The body of the \<open>try\<close> block.\<close>

definition getMaxTokensForResponse_try ::
  "'ev deps \<Rightarrow> string \<Rightarrow> Model \<Rightarrow> js_error + int" where
  "getMaxTokensForResponse_try imp inputText m =
     (case encode imp inputText of
        Inl e \<Rightarrow> Inl e
      | Inr toks \<Rightarrow>
          (let numberOfInputTokens = int (length toks);
               maxContextTokens = CONTEXT_WINDOW m;
               padding = padding_of maxContextTokens;
               maxTokensForResponse = maxContextTokens - numberOfInputTokens - padding
           in if maxTokensForResponse \<le> 0 then Inl input_too_large
              else Inr (min maxTokensForResponse (MAX_OUTPUT m))))"

text \<open>The \<open>catch\<close> block turns every error of the body into half the window.\<close>

definition getMaxTokensForResponse :: "'ev deps \<Rightarrow> string \<Rightarrow> Model \<Rightarrow> int" where
  "getMaxTokensForResponse imp inputText m =
     (case getMaxTokensForResponse_try imp inputText m of
        Inr n \<Rightarrow> n
      | Inl e \<Rightarrow> half_window m)"

subsection \<open>\<open>sendGptRequest\<close>\<close>

text \<open>
  A run: the effects performed, the part of the script not yet consumed, and how the
  call ended: \<open>Some (Inl e)\<close> when it threw \<open>e\<close>, \<open>Some (Inr v)\<close> when it returned
  \<open>v\<close>, and \<open>None\<close> when the script ended before the call did.
\<close>

type_synonym ('t, 'ev, 'a) run =
  "('t, 'ev) effect list \<times> script \<times> (js_error + 'a) option"

definition default_systemPrompt :: string where
  "default_systemPrompt = ''You are a helpful assistant.''"

definition default_retries :: int where
  "default_retries = 10"

definition default_delay :: int where
  "default_delay = 60000"

definition default_model :: Model where
  "default_model = Gpt4TurboPreview"

definition default_maxRetries :: int where
  "default_maxRetries = 3"

text \<open>The request of one attempt: budget, then system and user message, the image in front.\<close>

definition build_request ::
  "'ev deps \<Rightarrow> string \<Rightarrow> string \<Rightarrow> 't \<Rightarrow> chat_message option \<Rightarrow> Model \<Rightarrow> 't chat_request" where
  "build_request imp userPrompt systemPrompt temp imagePrompt m =
     (let max_tokens = getMaxTokensForResponse imp (userPrompt @ systemPrompt) m;
          msgs = [Message RoleSystem (Plain systemPrompt), Message RoleUser (Plain userPrompt)];
          msgs = (case imagePrompt of Some p \<Rightarrow> p # msgs | None \<Rightarrow> msgs)
      in \<lparr>model = m, messages = msgs, max_tokens = max_tokens, temperature = temp\<rparr>)"

definition build_event ::
  "'ev \<Rightarrow> 't chat_request \<Rightarrow> completion \<Rightarrow> 'ev usage_event" where
  "build_event baseEventData request response =
     (let inputTokens = (case prompt_tokens response of Some n \<Rightarrow> n | None \<Rightarrow> 0);
          outputTokens = (case completion_tokens response of Some n \<Rightarrow> n | None \<Rightarrow> 0)
      in \<lparr>base = baseEventData,
          cost = of_nat inputTokens * INPUT_TOKEN_COSTS (model request)
               + of_nat outputTokens * OUTPUT_TOKEN_COSTS (model request),
          tokens = inputTokens + outputTokens,
          event_model = model request,
          request_prompts = messages request,
          response_prompt = (case choice_content response of Some c \<Rightarrow> c | None \<Rightarrow> [])\<rparr>)"

text \<open>
  The body of the \<open>try\<close> block of \<open>sendGptRequest\<close>, given the outcome of its one
  provider call: the effects, and the error thrown or the content returned.
\<close>

definition sendGptRequest_try ::
  "'ev deps \<Rightarrow> string \<Rightarrow> string \<Rightarrow> 't \<Rightarrow> 'ev option \<Rightarrow> chat_message option \<Rightarrow> Model
     \<Rightarrow> js_error + completion \<Rightarrow> ('t, 'ev) effect list \<times> (js_error + string option)" where
  "sendGptRequest_try imp userPrompt systemPrompt temp baseEventData imagePrompt m outcome =
     (let request = build_request imp userPrompt systemPrompt temp imagePrompt m
      in case outcome of
           Inl error \<Rightarrow> ([Call request], Inl error)
         | Inr response \<Rightarrow>
             (case baseEventData of
                None \<Rightarrow> ([Call request], Inr (choice_content response))
              | Some b \<Rightarrow>
                  (let event = build_event b request response
                   in case db_events_insert imp event of
                        Some error \<Rightarrow> ([Call request, Insert event], Inl error)
                      | None \<Rightarrow> ([Call request, Insert event], Inr (choice_content response)))))"

text \<open>
  The whole function.  The \<open>catch\<close> rethrows when \<open>retries === 0\<close> or the status is
  not 429; otherwise it waits \<open>delay\<close> and calls itself with six arguments, so the
  image prompt and the model of the retry are the defaults.
\<close>

fun sendGptRequest ::
  "'ev deps \<Rightarrow> string \<Rightarrow> string \<Rightarrow> 't \<Rightarrow> 'ev option \<Rightarrow> int \<Rightarrow> int \<Rightarrow> chat_message option \<Rightarrow> Model
     \<Rightarrow> script \<Rightarrow> ('t, 'ev, string option) run" where
  "sendGptRequest imp userPrompt systemPrompt temp baseEventData retries delay imagePrompt m [] =
     ([], [], None)"
| "sendGptRequest imp userPrompt systemPrompt temp baseEventData retries delay imagePrompt m
     (outcome # rest) =
     (case sendGptRequest_try imp userPrompt systemPrompt temp baseEventData imagePrompt m outcome of
        (fx, Inr c) \<Rightarrow> (fx, rest, Some (Inr c))
      | (fx, Inl error) \<Rightarrow>
          if retries = 0 \<or> response_status error \<noteq> Some 429
          then (fx, rest, Some (Inl error))
          else (case sendGptRequest imp userPrompt systemPrompt temp baseEventData
                       (retries - 1) (delay * 2) None default_model rest of
                  (fx', rest', r) \<Rightarrow> (fx @ Wait delay # fx', rest', r)))"

subsection \<open>\<open>sendGptRequestWithSchema\<close>\<close>

text \<open>
  A schema is its \<open>safeParse\<close>: a failure with its description, or the validated data.
  The function returns \<open>any\<close>: the list of the validated elements, or the one value.
\<close>

type_synonym 'a zod_schema = "json \<Rightarrow> string + 'a"

datatype 'a extracted = Many "'a list" | One 'a

definition empty_response :: js_error where
  "empty_response = JsError ''/n/n/n/n **** Empty response from GPT **** /n/n/n/n'' None"

text \<open>
  The message of the source goes on with the stringified failures; it is only logged.
\<close>

definition invalid_response :: js_error where
  "invalid_response =
     JsError ''Invalid response from GPT - object is not able to be parsed using the provided schema: '' None"

text \<open>The rest of the \<open>try\<close> block of an attempt, after \<open>sendGptRequest\<close> has returned.\<close>

definition validate_response ::
  "'ev deps \<Rightarrow> 'a zod_schema \<Rightarrow> string option \<Rightarrow> js_error + 'a extracted" where
  "validate_response imp zodSchema gptResponse =
     (case gptResponse of
        None \<Rightarrow> Inl empty_response
      | Some text \<Rightarrow>
          if text = [] then Inl empty_response
          else
           (let extractedInfo = parse imp (removeMarkdownCodeblocks imp text)
            in case extractedInfo of
                 JArray infos \<Rightarrow>
                   (let validatedInfo = map zodSchema infos;
                        failedValidations = filter isl validatedInfo
                    in if length failedValidations > 0 then Inl invalid_response
                       else Inr (Many (map projr validatedInfo)))
               | _ \<Rightarrow>
                   (case zodSchema extractedInfo of
                      Inr d \<Rightarrow> Inr (One d)
                    | Inl err \<Rightarrow> Inl invalid_response)))"

definition max_retries_exceeded :: "string \<Rightarrow> js_error" where
  "max_retries_exceeded userPrompt =
     JsError (''Max retries exceeded for GPT request: '' @ userPrompt) None"

text \<open>
  The \<open>while\<close> loop, with its counter \<open>retries\<close>.  An attempt calls
  \<open>sendGptRequest\<close> with four arguments, so with the default retries, delay, image
  prompt and model; whatever the attempt throws is caught and counted.
\<close>

function sendGptRequestWithSchema_loop ::
  "'ev deps \<Rightarrow> string \<Rightarrow> string \<Rightarrow> 'a zod_schema \<Rightarrow> int \<Rightarrow> 't \<Rightarrow> 'ev option \<Rightarrow> int
     \<Rightarrow> script \<Rightarrow> ('t, 'ev, 'a extracted) run" where
  "sendGptRequestWithSchema_loop imp userPrompt systemPrompt zodSchema maxRetries temp baseEventData
     retries scr =
     (if retries < maxRetries then
        (case sendGptRequest imp userPrompt systemPrompt temp baseEventData
                default_retries default_delay None default_model scr of
           (fx, rest, None) \<Rightarrow> (fx, rest, None)
         | (fx, rest, Some r) \<Rightarrow>
             (case (case r of Inl error \<Rightarrow> Inl error
                            | Inr gptResponse \<Rightarrow> validate_response imp zodSchema gptResponse) of
                Inr d \<Rightarrow> (fx, rest, Some (Inr d))
              | Inl error \<Rightarrow>
                  (case sendGptRequestWithSchema_loop imp userPrompt systemPrompt zodSchema
                          maxRetries temp baseEventData (retries + 1) rest of
                     (fx', rest', r') \<Rightarrow> (fx @ fx', rest', r'))))
      else ([], scr, Some (Inl (max_retries_exceeded userPrompt))))"
  by pat_completeness auto
termination
  by (relation "measure (\<lambda>(imp, userPrompt, systemPrompt, zodSchema, maxRetries, temp,
                            baseEventData, retries, scr). nat (maxRetries - retries))") auto

declare sendGptRequestWithSchema_loop.simps [simp del]

definition sendGptRequestWithSchema ::
  "'ev deps \<Rightarrow> string \<Rightarrow> string \<Rightarrow> 'a zod_schema \<Rightarrow> int \<Rightarrow> 't \<Rightarrow> 'ev option
     \<Rightarrow> script \<Rightarrow> ('t, 'ev, 'a extracted) run" where
  "sendGptRequestWithSchema imp userPrompt systemPrompt zodSchema maxRetries temp baseEventData scr =
     sendGptRequestWithSchema_loop imp userPrompt systemPrompt zodSchema maxRetries temp
       baseEventData 0 scr"

subsection \<open>\<open>sendGptVisionRequest\<close>\<close>

text \<open>
  \<open>parseTemplate("dev", "vision", "user", {})\<close>: the fourth argument is the empty
  parameter object at the only call of this module.
\<close>

definition vision_image_prompt :: "'ev deps \<Rightarrow> string \<Rightarrow> chat_message" where
  "vision_image_prompt imp snapshotUrl =
     (let prompt = parseTemplate imp ''dev'' ''vision'' ''user''
      in Message RoleUser (Parts [ImageUrlPart snapshotUrl ''high'', TextPart prompt]))"

definition sendGptVisionRequest ::
  "'ev deps \<Rightarrow> string \<Rightarrow> string \<Rightarrow> string \<Rightarrow> 't \<Rightarrow> 'ev option \<Rightarrow> int \<Rightarrow> int
     \<Rightarrow> script \<Rightarrow> ('t, 'ev, string option) run" where
  "sendGptVisionRequest imp userPrompt systemPrompt snapshotUrl temp baseEventData retries delay scr =
     (if length snapshotUrl > 0
      then sendGptRequest imp userPrompt systemPrompt temp baseEventData retries delay
             (Some (vision_image_prompt imp snapshotUrl)) Gpt4VisionPreview scr
      else sendGptRequest imp userPrompt systemPrompt temp baseEventData retries delay
             None Gpt4TurboPreview scr)"

subsection \<open>A concrete environment\<close>

text \<open>
  An environment for closed instances: a tokenizer of one token per character, an event
  store that never fails, a fence stripper that knows one fenced response, a parser that
  knows three texts, a schema of numbers and a schema that rejects every value.
\<close>

definition example_deps :: "string deps" where
  "example_deps =
     \<lparr>encode = (\<lambda>s. Inr (map of_char s)),
      db_events_insert = (\<lambda>ev. None),
      removeMarkdownCodeblocks = (\<lambda>s. if s = ''```[1, 2]```'' then ''[1, 2]'' else s),
      parse = (\<lambda>s. if s = ''[1, 2]'' then JArray [JNumber 1, JNumber 2]
                   else if s = ''[1, null]'' then JArray [JNumber 1, JNull]
                   else if s = ''[]'' then JArray []
                   else JUndefined),
      parseTemplate = (\<lambda>env dir name. ''Describe the image.'')\<rparr>"

definition number_schema :: "rat zod_schema" where
  "number_schema j = (case j of JNumber n \<Rightarrow> Inr n | _ \<Rightarrow> Inl ''Expected number'')"

definition reject_all :: "rat zod_schema" where
  "reject_all j = Inl ''Rejected''"

definition reply :: "string \<Rightarrow> js_error + completion" where
  "reply text =
     Inr \<lparr>choice_content = Some text, prompt_tokens = Some 7, completion_tokens = Some 5\<rparr>"

definition rate_limited :: "js_error + completion" where
  "rate_limited = Inl (JsError ''Rate limit reached'' (Some 429))"

text \<open>
  The client of line 14 is the v4 client of the \<open>openai\<close> package
  (\<open>new OpenAI\<close>, \<open>openai.chat.completions.create\<close>).  On HTTP 429 it throws a
  \<open>RateLimitError\<close>: the status is the error's own property \<open>status\<close>, and the
  error has no property \<open>response\<close>, so \<open>error.response?.status\<close> is undefined.
\<close>

definition RateLimitError :: js_error where
  "RateLimitError = JsError ''429 Rate limit reached for requests'' None"

subsection \<open>Values of the tables\<close>

lemma padding_of_div: "padding_of n = - ((- n) div 100)"
proof -
  have "rat_of_int n * (1 / 100) = - (rat_of_int (- n) / rat_of_int 100)"
    by simp
  then have "padding_of n = - \<lfloor>rat_of_int (- n) / rat_of_int 100\<rfloor>"
    unfolding padding_of_def ceiling_def by simp
  then show ?thesis
    by (simp only: floor_divide_of_int_eq)
qed

lemma padding_of_window:
  "padding_of (CONTEXT_WINDOW Gpt4_0613) = 82"
  "padding_of (CONTEXT_WINDOW Gpt4VisionPreview) = 1280"
  "padding_of (CONTEXT_WINDOW Gpt4TurboPreview) = 1280"
  by (simp_all add: padding_of_div)

lemma half_window_values:
  "half_window Gpt4_0613 = 4096"
  "half_window Gpt4VisionPreview = 64000"
  "half_window Gpt4TurboPreview = 64000"
  by (simp_all add: half_window_def)

lemma MAX_OUTPUT_pos: "0 < MAX_OUTPUT m"
  by (cases m) simp_all

subsection \<open>The first effect of a call\<close>

lemma build_request_fields:
  "model (build_request imp u s temp img m) = m"
  "max_tokens (build_request imp u s temp img m) = getMaxTokensForResponse imp (u @ s) m"
  "temperature (build_request imp u s temp img m) = temp"
  "messages (build_request imp u s temp None m)
     = [Message RoleSystem (Plain s), Message RoleUser (Plain u)]"
  "messages (build_request imp u s temp (Some p) m)
     = [p, Message RoleSystem (Plain s), Message RoleUser (Plain u)]"
  by (simp_all add: build_request_def Let_def)

lemma sendGptRequest_try_call:
  "\<exists>fx. fst (sendGptRequest_try imp u s temp b img m outcome)
          = Call (build_request imp u s temp img m) # fx"
  by (simp add: sendGptRequest_try_def Let_def split: sum.split option.split)

lemma sendGptRequest_starts_with_call:
  "\<exists>fx. fst (sendGptRequest imp u s temp b retries delay img m (outcome # rest))
          = Call (build_request imp u s temp img m) # fx"
proof -
  obtain fx0 r0 where t: "sendGptRequest_try imp u s temp b img m outcome = (fx0, r0)"
    by (cases "sendGptRequest_try imp u s temp b img m outcome")
  from sendGptRequest_try_call [of imp u s temp b img m outcome] t
  obtain fx1 where f: "fx0 = Call (build_request imp u s temp img m) # fx1"
    by auto
  show ?thesis
    using t f by (simp split: sum.split prod.split)
qed

lemma example_encode_length:
  "encode example_deps txt = Inr (map of_char txt)"
  by (simp add: example_deps_def)

subsection \<open>One attempt, and the retry of a rate-limited one\<close>

lemma sendGptRequest_try_provider_error:
  "sendGptRequest_try imp u s temp b img m (Inl e)
     = ([Call (build_request imp u s temp img m)], Inl e)"
  by (simp add: sendGptRequest_try_def)

lemma sendGptRequest_try_success:
  assumes "\<forall>ev. db_events_insert imp ev = None"
  shows "sendGptRequest_try imp u s temp b img m (Inr response)
     = (Call (build_request imp u s temp img m)
          # (case b of None \<Rightarrow> []
             | Some d \<Rightarrow> [Insert (build_event d (build_request imp u s temp img m) response)]),
        Inr (choice_content response))"
  using assms by (simp add: sendGptRequest_try_def Let_def split: option.split)

lemma sendGptRequest_retry:
  assumes "sendGptRequest_try imp u s temp b img m outcome = (fx, Inl e)"
    and "response_status e = Some 429" and "retries \<noteq> 0"
  shows "sendGptRequest imp u s temp b retries delay img m (outcome # rest)
     = (case sendGptRequest imp u s temp b (retries - 1) (delay * 2) None default_model rest of
          (fx', rest', r) \<Rightarrow> (fx @ Wait delay # fx', rest', r))"
  using assms by simp

lemma sendGptRequest_try_effects:
  "fst (sendGptRequest_try imp u s temp b img m outcome)
     = [Call (build_request imp u s temp img m)]
   \<or> (\<exists>ev. fst (sendGptRequest_try imp u s temp b img m outcome)
            = [Call (build_request imp u s temp img m), Insert ev])"
  by (simp add: sendGptRequest_try_def Let_def split: sum.split option.split)



subsection \<open>One iteration of the extractor's loop\<close>

lemma loop_exhausted:
  "\<not> retries < maxRetries \<Longrightarrow>
   sendGptRequestWithSchema_loop imp u s z maxRetries temp b retries scr
     = ([], scr, Some (Inl (max_retries_exceeded u)))"
  by (simp add: sendGptRequestWithSchema_loop.simps)

lemma dispatch_success:
  assumes "\<forall>ev. db_events_insert imp ev = None"
  shows "sendGptRequest imp u s temp b retries delay img m (Inr response # rest)
     = (Call (build_request imp u s temp img m)
          # (case b of None \<Rightarrow> []
             | Some d \<Rightarrow> [Insert (build_event d (build_request imp u s temp img m) response)]),
        rest, Some (Inr (choice_content response)))"
  by (simp add: sendGptRequest_try_success [OF assms])

lemma loop_rejected:
  assumes "retries < maxRetries" and "\<forall>ev. db_events_insert imp ev = None"
    and "isl (validate_response imp z (choice_content response))"
  shows "sendGptRequestWithSchema_loop imp u s z maxRetries temp b retries (Inr response # rest)
     = (case sendGptRequestWithSchema_loop imp u s z maxRetries temp b (retries + 1) rest of
          (fx', rest', r') \<Rightarrow>
            ((Call (build_request imp u s temp None default_model)
               # (case b of None \<Rightarrow> []
                  | Some d \<Rightarrow> [Insert (build_event d
                       (build_request imp u s temp None default_model) response)])) @ fx',
             rest', r'))"
proof -
  obtain err where "validate_response imp z (choice_content response) = Inl err"
    using assms(3) by (cases "validate_response imp z (choice_content response)") auto
  then show ?thesis
    using assms(1)
    by (subst sendGptRequestWithSchema_loop.simps)
       (simp add: dispatch_success [OF assms(2)] del: sendGptRequest.simps)
qed

lemma loop_accepted:
  assumes "retries < maxRetries" and "\<forall>ev. db_events_insert imp ev = None"
    and "validate_response imp z (choice_content response) = Inr d"
  shows "sendGptRequestWithSchema_loop imp u s z maxRetries temp b retries (Inr response # rest)
     = (Call (build_request imp u s temp None default_model)
          # (case b of None \<Rightarrow> []
             | Some d \<Rightarrow> [Insert (build_event d
                  (build_request imp u s temp None default_model) response)]),
        rest, Some (Inr d))"
  using assms(1,3)
  by (subst sendGptRequestWithSchema_loop.simps)
     (simp add: dispatch_success [OF assms(2)] del: sendGptRequest.simps)

lemma validate_response_array:
  assumes "text \<noteq> []" and "parse imp (removeMarkdownCodeblocks imp text) = JArray infos"
    and "\<forall>info \<in> set infos. \<not> isl (z info)"
  shows "validate_response imp z (Some text) = Inr (Many (map (\<lambda>info. projr (z info)) infos))"
proof -
  have "filter isl (map z infos) = []"
    using assms(3) by (simp add: filter_empty_conv)
  then show ?thesis
    using assms(1,2) by (simp add: validate_response_def Let_def comp_def)
qed



lemma validate_response_rejects:
  assumes "case gptResponse of
             None \<Rightarrow> True
           | Some text \<Rightarrow>
               text = [] \<or>
               (case parse imp (removeMarkdownCodeblocks imp text) of
                  JArray infos \<Rightarrow> \<exists>info \<in> set infos. isl (z info)
                | info \<Rightarrow> isl (z info))"
  shows "isl (validate_response imp z gptResponse)"
proof (cases gptResponse)
  case None
  then show ?thesis by (simp add: validate_response_def)
next
  case (Some t)
  show ?thesis
  proof (cases "t = []")
    case True
    with Some show ?thesis by (simp add: validate_response_def)
  next
    case False
    with assms Some show ?thesis
      by (cases "parse imp (removeMarkdownCodeblocks imp t)")
         (auto simp: validate_response_def Let_def filter_empty_conv split: sum.split)
  qed
qed

subsection \<open>The concrete environment, evaluated\<close>

lemma example_insert: "\<forall>ev. db_events_insert example_deps ev = None"
  by (simp add: example_deps_def)

lemma example_request:
  "build_request example_deps ''user'' ''sys'' (1 / 5 :: rat) None default_model
     = \<lparr>model = Gpt4TurboPreview,
        messages = [Message RoleSystem (Plain ''sys''), Message RoleUser (Plain ''user'')],
        max_tokens = 4096, temperature = 1 / 5\<rparr>"
  by (simp add: build_request_def getMaxTokensForResponse_def getMaxTokensForResponse_try_def
      example_encode_length padding_of_div default_model_def Let_def)


section \<open>The token budget\<close>

text \<open>
  C1. When the tokenizer returns the tokens of the input text and the context window
  minus the number of tokens minus the padding (the ceiling of 1% of the window) is
  positive, \<open>getMaxTokensForResponse\<close> returns the minimum of that remainder and the
  model's maximum output, and the value is positive.
\<close>

theorem budget_within_window:
  assumes "encode imp inputText = Inr toks"
    and "0 < CONTEXT_WINDOW m - int (length toks) - padding_of (CONTEXT_WINDOW m)"
  shows "getMaxTokensForResponse imp inputText m
           = min (CONTEXT_WINDOW m - int (length toks) - padding_of (CONTEXT_WINDOW m)) (MAX_OUTPUT m)
         \<and> 0 < getMaxTokensForResponse imp inputText m"
  using assms MAX_OUTPUT_pos [of m]
  by (simp add: getMaxTokensForResponse_def getMaxTokensForResponse_try_def Let_def)

theorem budget_within_window_witness:
  "encode example_deps ''hello'' = Inr [104, 101, 108, 108, 111]
   \<and> 0 < CONTEXT_WINDOW Gpt4_0613 - int (length [104, 101, 108, 108, 111 :: nat])
           - padding_of (CONTEXT_WINDOW Gpt4_0613)
   \<and> getMaxTokensForResponse example_deps ''hello'' Gpt4_0613 = 8105
   \<and> getMaxTokensForResponse example_deps ''hello'' Gpt4TurboPreview = 4096"
  using budget_within_window [of example_deps "''hello''" "[104, 101, 108, 108, 111]" Gpt4_0613]
    budget_within_window [of example_deps "''hello''" "[104, 101, 108, 108, 111]" Gpt4TurboPreview]
  by (simp add: example_deps_def padding_of_div)

text \<open>
  C2. When the tokens of the input together with the padding reach the context window
  (window - tokens - padding \<open>\<le> 0\<close>), the body of the calculation throws the
  "input too large" error, the calculator returns \<open>round (window / 2)\<close>, and the
  request the dispatcher issues carries exactly that value as \<open>max_tokens\<close>.
\<close>

theorem budget_overflow_falls_back:
  assumes "encode imp (userPrompt @ systemPrompt) = Inr toks"
    and "CONTEXT_WINDOW m - int (length toks) - padding_of (CONTEXT_WINDOW m) \<le> 0"
  shows "getMaxTokensForResponse_try imp (userPrompt @ systemPrompt) m = Inl input_too_large
       \<and> getMaxTokensForResponse imp (userPrompt @ systemPrompt) m
           = round (rat_of_int (CONTEXT_WINDOW m) / 2)
       \<and> (\<exists>req fx. fst (sendGptRequest imp userPrompt systemPrompt temp baseEventData retries delay
                          imagePrompt m (outcome # rest)) = Call req # fx
                   \<and> max_tokens req = round (rat_of_int (CONTEXT_WINDOW m) / 2))"
proof -
  have t: "getMaxTokensForResponse_try imp (userPrompt @ systemPrompt) m = Inl input_too_large"
    using assms by (simp add: getMaxTokensForResponse_try_def Let_def)
  then have g: "getMaxTokensForResponse imp (userPrompt @ systemPrompt) m
                  = round (rat_of_int (CONTEXT_WINDOW m) / 2)"
    by (simp add: getMaxTokensForResponse_def half_window_def)
  obtain fx where "fst (sendGptRequest imp userPrompt systemPrompt temp baseEventData retries delay
                          imagePrompt m (outcome # rest))
                     = Call (build_request imp userPrompt systemPrompt temp imagePrompt m) # fx"
    using sendGptRequest_starts_with_call [of imp userPrompt systemPrompt temp baseEventData
        retries delay imagePrompt m outcome rest] by auto
  with g have "\<exists>req fx. fst (sendGptRequest imp userPrompt systemPrompt temp baseEventData retries delay
                          imagePrompt m (outcome # rest)) = Call req # fx
                   \<and> max_tokens req = round (rat_of_int (CONTEXT_WINDOW m) / 2)"
    by (metis build_request_fields(2))
  with t g show ?thesis by blast
qed

theorem budget_overflow_falls_back_witness:
  "encode example_deps (replicate 9000 CHR ''a'' @ ''sys'')
     = Inr (map of_char (replicate 9000 CHR ''a'' @ ''sys''))
   \<and> CONTEXT_WINDOW Gpt4_0613
        - int (length (map (of_char :: char \<Rightarrow> nat) (replicate 9000 CHR ''a'' @ ''sys'')))
        - padding_of (CONTEXT_WINDOW Gpt4_0613) \<le> 0
   \<and> getMaxTokensForResponse_try example_deps (replicate 9000 CHR ''a'' @ ''sys'') Gpt4_0613
       = Inl input_too_large
   \<and> getMaxTokensForResponse example_deps (replicate 9000 CHR ''a'' @ ''sys'') Gpt4_0613 = 4096
   \<and> (\<exists>req fx. fst (sendGptRequest example_deps (replicate 9000 CHR ''a'') ''sys'' (0::nat) None
                      10 60000 None Gpt4_0613 [reply ''ok'']) = Call req # fx
               \<and> max_tokens req = 4096)"
  using budget_overflow_falls_back [where imp = example_deps
      and userPrompt = "replicate 9000 CHR ''a''" and systemPrompt = "''sys''"
      and toks = "map of_char (replicate 9000 CHR ''a'' @ ''sys'')" and m = Gpt4_0613
      and temp = "0::nat" and baseEventData = None and retries = 10 and delay = 60000
      and imagePrompt = None and outcome = "reply ''ok''" and rest = "[]"]
  by (simp add: example_encode_length padding_of_div del: sendGptRequest.simps)

text \<open>
  C3, as stated, fails: with 9003 input tokens and the 8192-token model the dispatcher
  does not fail; it issues the request with \<open>max_tokens = 4096\<close>, and
  4096 + 9003 + 82 exceeds the window.
\<close>

theorem dispatcher_overflow_still_calls:
  "sendGptRequest example_deps (replicate 9000 CHR ''a'') ''sys'' (1 / 5 :: rat) None 10 60000
       None Gpt4_0613 [reply ''ok'']
     = ([Call \<lparr>model = Gpt4_0613,
               messages = [Message RoleSystem (Plain ''sys''),
                           Message RoleUser (Plain (replicate 9000 CHR ''a''))],
               max_tokens = 4096, temperature = 1 / 5\<rparr>],
        [], Some (Inr (Some ''ok'')))
   \<and> encode example_deps (replicate 9000 CHR ''a'' @ ''sys'')
       = Inr (map of_char (replicate 9000 CHR ''a'' @ ''sys''))
   \<and> length (map (of_char :: char \<Rightarrow> nat) (replicate 9000 CHR ''a'' @ ''sys'')) = 9003
   \<and> padding_of (CONTEXT_WINDOW Gpt4_0613) = 82
   \<and> CONTEXT_WINDOW Gpt4_0613 < 4096 + 9003 + 82"
  by (simp add: sendGptRequest_try_def build_request_def getMaxTokensForResponse_def
      getMaxTokensForResponse_try_def example_encode_length padding_of_div half_window_values
      reply_def Let_def)

text \<open>
  C3, amended. Every call into the dispatcher whose input the tokenizer encodes issues a
  request for its model.  When window - tokens - padding is positive, the request's
  \<open>max_tokens\<close> plus the tokens plus the padding stays within the window.  When it
  is not positive the call does not fail before the network request: the request is
  issued with \<open>max_tokens = round (window / 2)\<close>.
\<close>

theorem dispatcher_request_budget:
  assumes "encode imp (userPrompt @ systemPrompt) = Inr toks"
  shows "\<exists>req fx.
           fst (sendGptRequest imp userPrompt systemPrompt temp baseEventData retries delay
                  imagePrompt m (outcome # rest)) = Call req # fx
         \<and> model req = m
         \<and> (0 < CONTEXT_WINDOW m - int (length toks) - padding_of (CONTEXT_WINDOW m)
              \<longrightarrow> max_tokens req + int (length toks) + padding_of (CONTEXT_WINDOW m)
                    \<le> CONTEXT_WINDOW m)
         \<and> (CONTEXT_WINDOW m - int (length toks) - padding_of (CONTEXT_WINDOW m) \<le> 0
              \<longrightarrow> max_tokens req = round (rat_of_int (CONTEXT_WINDOW m) / 2))"
proof -
  let ?req = "build_request imp userPrompt systemPrompt temp imagePrompt m"
  let ?left = "CONTEXT_WINDOW m - int (length toks) - padding_of (CONTEXT_WINDOW m)"
  obtain fx where c: "fst (sendGptRequest imp userPrompt systemPrompt temp baseEventData retries
                             delay imagePrompt m (outcome # rest)) = Call ?req # fx"
    using sendGptRequest_starts_with_call [of imp userPrompt systemPrompt temp baseEventData
        retries delay imagePrompt m outcome rest] by auto
  have pos: "0 < ?left \<longrightarrow> max_tokens ?req + int (length toks) + padding_of (CONTEXT_WINDOW m)
                              \<le> CONTEXT_WINDOW m"
  proof
    assume "0 < ?left"
    with assms have "max_tokens ?req = min ?left (MAX_OUTPUT m)"
      by (simp add: build_request_fields getMaxTokensForResponse_def
          getMaxTokensForResponse_try_def Let_def)
    then show "max_tokens ?req + int (length toks) + padding_of (CONTEXT_WINDOW m)
                 \<le> CONTEXT_WINDOW m"
      by linarith
  qed
  have neg: "?left \<le> 0 \<longrightarrow> max_tokens ?req = round (rat_of_int (CONTEXT_WINDOW m) / 2)"
    using assms
    by (simp add: build_request_fields getMaxTokensForResponse_def
        getMaxTokensForResponse_try_def half_window_def Let_def)
  from c pos neg build_request_fields(1) [of imp userPrompt systemPrompt temp imagePrompt m]
  show ?thesis by blast
qed

theorem dispatcher_request_budget_witness:
  "encode example_deps (''hello'' @ ''sys'') = Inr (map of_char (''hello'' @ ''sys''))
   \<and> 0 < CONTEXT_WINDOW Gpt4_0613 - int (length (map (of_char :: char \<Rightarrow> nat) (''hello'' @ ''sys'')))
           - padding_of (CONTEXT_WINDOW Gpt4_0613)
   \<and> (\<exists>req fx. fst (sendGptRequest example_deps ''hello'' ''sys'' (1 / 5 :: rat) None 10 60000
                      None Gpt4_0613 [reply ''ok'']) = Call req # fx
               \<and> max_tokens req + 8 + 82 \<le> 8192)
   \<and> encode example_deps (replicate 9000 CHR ''a'' @ ''sys'')
       = Inr (map of_char (replicate 9000 CHR ''a'' @ ''sys''))
   \<and> CONTEXT_WINDOW Gpt4_0613
        - int (length (map (of_char :: char \<Rightarrow> nat) (replicate 9000 CHR ''a'' @ ''sys'')))
        - padding_of (CONTEXT_WINDOW Gpt4_0613) \<le> 0
   \<and> (\<exists>req fx. fst (sendGptRequest example_deps (replicate 9000 CHR ''a'') ''sys'' (1 / 5 :: rat)
                      None 10 60000 None Gpt4_0613 [reply ''ok'']) = Call req # fx
               \<and> max_tokens req = 4096)"
  using dispatcher_request_budget [where imp = example_deps
      and userPrompt = "''hello''" and systemPrompt = "''sys''"
      and toks = "map of_char (''hello'' @ ''sys'')" and m = Gpt4_0613
      and temp = "1 / 5 :: rat" and baseEventData = None and retries = 10 and delay = 60000
      and imagePrompt = None and outcome = "reply ''ok''" and rest = "[]"]
    dispatcher_request_budget [where imp = example_deps
      and userPrompt = "replicate 9000 CHR ''a''" and systemPrompt = "''sys''"
      and toks = "map of_char (replicate 9000 CHR ''a'' @ ''sys'')" and m = Gpt4_0613
      and temp = "1 / 5 :: rat" and baseEventData = None and retries = 10 and delay = 60000
      and imagePrompt = None and outcome = "reply ''ok''" and rest = "[]"]
  by (simp add: example_encode_length padding_of_div del: sendGptRequest.simps) blast

section \<open>Retry and backoff\<close>

text \<open>
  The retry path, on the errors its guard recognises.  With \<open>retries = 10\<close> and
  \<open>delay = 60000\<close>, when the first two provider calls throw errors that carry
  \<open>response.status\<close> 429 and the third returns a completion (the event store
  accepting the usage event), the call makes three requests, waits 60000 ms before the
  second and 120000 ms before the third, and returns the content of the third
  completion; whatever follows the two failures is run with 8 retries left and a delay of
  240000 ms.
\<close>

lemma backoff_on_response_status_429:
  assumes "response_status e1 = Some 429" and "response_status e2 = Some 429"
    and "\<forall>ev. db_events_insert imp ev = None"
  shows "sendGptRequest imp userPrompt systemPrompt temp baseEventData 10 60000 imagePrompt m
           (Inl e1 # Inl e2 # Inr response # rest)
         = ([Call (build_request imp userPrompt systemPrompt temp imagePrompt m), Wait 60000,
             Call (build_request imp userPrompt systemPrompt temp None default_model), Wait 120000,
             Call (build_request imp userPrompt systemPrompt temp None default_model)]
            @ (case baseEventData of None \<Rightarrow> []
               | Some d \<Rightarrow> [Insert (build_event d
                    (build_request imp userPrompt systemPrompt temp None default_model) response)]),
            rest, Some (Inr (choice_content response)))
       \<and> sendGptRequest imp userPrompt systemPrompt temp baseEventData 10 60000 imagePrompt m
           (Inl e1 # Inl e2 # scr)
         = (case sendGptRequest imp userPrompt systemPrompt temp baseEventData 8 240000 None
                  default_model scr of
              (fx, rest', r) \<Rightarrow>
                ([Call (build_request imp userPrompt systemPrompt temp imagePrompt m), Wait 60000,
                  Call (build_request imp userPrompt systemPrompt temp None default_model),
                  Wait 120000] @ fx, rest', r))"
proof -
  let ?q1 = "build_request imp userPrompt systemPrompt temp imagePrompt m"
  let ?q2 = "build_request imp userPrompt systemPrompt temp None default_model"
  have s1: "sendGptRequest imp userPrompt systemPrompt temp baseEventData 10 60000 imagePrompt m
              (Inl e1 # xs)
            = (case sendGptRequest imp userPrompt systemPrompt temp baseEventData 9 120000 None
                     default_model xs of
                 (fx', rest', r) \<Rightarrow> (Call ?q1 # Wait 60000 # fx', rest', r))" for xs
    using sendGptRequest_retry [OF sendGptRequest_try_provider_error assms(1),
        where retries = 10 and delay = 60000 and rest = xs]
    by simp
  have s2: "sendGptRequest imp userPrompt systemPrompt temp baseEventData 9 120000 None
              default_model (Inl e2 # xs)
            = (case sendGptRequest imp userPrompt systemPrompt temp baseEventData 8 240000 None
                     default_model xs of
                 (fx', rest', r) \<Rightarrow> (Call ?q2 # Wait 120000 # fx', rest', r))" for xs
    using sendGptRequest_retry [OF sendGptRequest_try_provider_error assms(2),
        where retries = 9 and delay = 120000 and rest = xs]
    by simp
  have s3: "sendGptRequest imp userPrompt systemPrompt temp baseEventData 8 240000 None
              default_model (Inr response # rest)
            = (Call ?q2 # (case baseEventData of None \<Rightarrow> []
                           | Some d \<Rightarrow> [Insert (build_event d ?q2 response)]),
               rest, Some (Inr (choice_content response)))"
    by (simp add: sendGptRequest_try_success [OF assms(3)])
  have a: "sendGptRequest imp userPrompt systemPrompt temp baseEventData 10 60000 imagePrompt m
             (Inl e1 # Inl e2 # scr)
           = (case sendGptRequest imp userPrompt systemPrompt temp baseEventData 8 240000 None
                    default_model scr of
                (fx, rest', r) \<Rightarrow> ([Call ?q1, Wait 60000, Call ?q2, Wait 120000] @ fx, rest', r))"
    for scr
    by (simp only: s1 s2) (simp split: prod.split)
  have b: "sendGptRequest imp userPrompt systemPrompt temp baseEventData 10 60000 imagePrompt m
             (Inl e1 # Inl e2 # Inr response # rest)
           = ([Call ?q1, Wait 60000, Call ?q2, Wait 120000, Call ?q2]
              @ (case baseEventData of None \<Rightarrow> []
                 | Some d \<Rightarrow> [Insert (build_event d ?q2 response)]),
              rest, Some (Inr (choice_content response)))"
    by (simp only: a s3) simp
  from a [of scr] b show ?thesis by blast
qed

lemma backoff_on_response_status_429_example:
  "response_status (JsError ''Rate limit reached'' (Some 429)) = Some 429
   \<and> (\<forall>ev. db_events_insert example_deps ev = None)
   \<and> sendGptRequest example_deps ''user'' ''sys'' (1 / 5 :: rat) (Some ''task-1'') 10 60000 None
        Gpt4TurboPreview [rate_limited, rate_limited, reply ''done'']
      = ([Call \<lparr>model = Gpt4TurboPreview,
                messages = [Message RoleSystem (Plain ''sys''), Message RoleUser (Plain ''user'')],
                max_tokens = 4096, temperature = 1 / 5\<rparr>,
          Wait 60000,
          Call \<lparr>model = Gpt4TurboPreview,
                messages = [Message RoleSystem (Plain ''sys''), Message RoleUser (Plain ''user'')],
                max_tokens = 4096, temperature = 1 / 5\<rparr>,
          Wait 120000,
          Call \<lparr>model = Gpt4TurboPreview,
                messages = [Message RoleSystem (Plain ''sys''), Message RoleUser (Plain ''user'')],
                max_tokens = 4096, temperature = 1 / 5\<rparr>,
          Insert \<lparr>base = ''task-1'', cost = 11 / 50000, tokens = 12,
                  event_model = Gpt4TurboPreview,
                  request_prompts = [Message RoleSystem (Plain ''sys''),
                                     Message RoleUser (Plain ''user'')],
                  response_prompt = ''done''\<rparr>],
         [], Some (Inr (Some ''done'')))"
proof -
  have h1: "response_status (JsError ''Rate limit reached'' (Some 429)) = Some 429"
    by simp
  have h2: "\<forall>ev. db_events_insert example_deps ev = None"
    by (simp add: example_deps_def)
  have q: "build_request example_deps ''user'' ''sys'' (1 / 5 :: rat) None Gpt4TurboPreview
           = \<lparr>model = Gpt4TurboPreview,
                messages = [Message RoleSystem (Plain ''sys''), Message RoleUser (Plain ''user'')],
                max_tokens = 4096, temperature = 1 / 5\<rparr>"
    by (simp add: build_request_def getMaxTokensForResponse_def getMaxTokensForResponse_try_def
        example_encode_length padding_of_div Let_def)
  from backoff_on_response_status_429 [OF h1 h1 h2, where userPrompt = "''user''"
      and systemPrompt = "''sys''" and temp = "1 / 5 :: rat" and baseEventData = "Some ''task-1''"
      and imagePrompt = None and m = Gpt4TurboPreview
      and response = "\<lparr>choice_content = Some ''done'', prompt_tokens = Some 7,
                        completion_tokens = Some 5\<rparr>"
      and rest = "[]" and scr = "[]"]
  show ?thesis
    using h1 h2
    by (simp add: q default_model_def rate_limited_def reply_def build_event_def ONE_MILLION_def
        del: sendGptRequest.simps)
qed

text \<open>
  C4 says that two rate-limit failures of the provider followed by a success are retried
  twice, after 60000 ms and 120000 ms, and that the result of the third attempt is
  returned.  On the code, with \<open>retries = 10\<close> and \<open>delay = 60000\<close>: the
  rate-limit error of the provider's client has no \<open>response\<close>, so the guard of
  line 170 takes it for another error.  The call makes one request, waits never, and
  throws the first error; the second failure and the completion are never asked for.
\<close>

theorem rate_limit_error_not_retried:
  "sendGptRequest imp userPrompt systemPrompt temp baseEventData 10 60000 imagePrompt m
     (Inl RateLimitError # Inl RateLimitError # Inr response # rest)
   = ([Call (build_request imp userPrompt systemPrompt temp imagePrompt m)],
      Inl RateLimitError # Inr response # rest,
      Some (Inl RateLimitError))"
  by (simp add: sendGptRequest_try_provider_error RateLimitError_def)

theorem rate_limit_error_not_retried_witness:
  "response_status RateLimitError = None
   \<and> sendGptRequest example_deps ''user'' ''sys'' (1 / 5 :: rat) None 10 60000 None
        Gpt4TurboPreview [Inl RateLimitError, Inl RateLimitError, reply ''done'']
      = ([Call \<lparr>model = Gpt4TurboPreview,
                messages = [Message RoleSystem (Plain ''sys''), Message RoleUser (Plain ''user'')],
                max_tokens = 4096, temperature = 1 / 5\<rparr>],
         [Inl RateLimitError, reply ''done''],
         Some (Inl RateLimitError))"
  using rate_limit_error_not_retried [where imp = example_deps and userPrompt = "''user''"
      and systemPrompt = "''sys''" and temp = "1 / 5 :: rat" and baseEventData = None
      and imagePrompt = None and m = Gpt4TurboPreview
      and response = "\<lparr>choice_content = Some ''done'', prompt_tokens = Some 7,
                        completion_tokens = Some 5\<rparr>" and rest = "[]"]
    example_request
  by (simp add: reply_def default_model_def RateLimitError_def del: sendGptRequest.simps)

text \<open>
  C5. When an attempt throws an error and either no retries remain or the error does not
  carry status 429, the call ends with that very error; its effects are those of the one
  attempt (one request, possibly the insert of the usage event), with no wait and no
  further request.  For an error thrown by the provider the effects are the one request.
\<close>

theorem error_propagates_without_retry:
  assumes "sendGptRequest_try imp userPrompt systemPrompt temp baseEventData imagePrompt m outcome
             = (fx, Inl e)"
    and "retries = 0 \<or> response_status e \<noteq> Some 429"
  shows "sendGptRequest imp userPrompt systemPrompt temp baseEventData retries delay imagePrompt m
           (outcome # rest) = (fx, rest, Some (Inl e))
       \<and> (fx = [Call (build_request imp userPrompt systemPrompt temp imagePrompt m)]
          \<or> (\<exists>ev. fx = [Call (build_request imp userPrompt systemPrompt temp imagePrompt m),
                          Insert ev]))
       \<and> (outcome = Inl e
            \<longrightarrow> fx = [Call (build_request imp userPrompt systemPrompt temp imagePrompt m)])"
proof -
  have run: "sendGptRequest imp userPrompt systemPrompt temp baseEventData retries delay
               imagePrompt m (outcome # rest) = (fx, rest, Some (Inl e))"
    using assms by auto
  have shape: "fx = [Call (build_request imp userPrompt systemPrompt temp imagePrompt m)]
          \<or> (\<exists>ev. fx = [Call (build_request imp userPrompt systemPrompt temp imagePrompt m),
                          Insert ev])"
    using sendGptRequest_try_effects [of imp userPrompt systemPrompt temp baseEventData
        imagePrompt m outcome] assms(1) by simp
  have prov: "outcome = Inl e
            \<longrightarrow> fx = [Call (build_request imp userPrompt systemPrompt temp imagePrompt m)]"
    using assms(1) by (auto simp: sendGptRequest_try_provider_error)
  from run shape prov show ?thesis by blast
qed

theorem error_propagates_without_retry_witness:
  "sendGptRequest_try example_deps ''user'' ''sys'' (1 / 5 :: rat) None None Gpt4TurboPreview
       (Inl (JsError ''Internal server error'' (Some 500)))
     = ([Call \<lparr>model = Gpt4TurboPreview,
               messages = [Message RoleSystem (Plain ''sys''), Message RoleUser (Plain ''user'')],
               max_tokens = 4096, temperature = 1 / 5\<rparr>],
        Inl (JsError ''Internal server error'' (Some 500)))
   \<and> response_status (JsError ''Internal server error'' (Some 500)) \<noteq> Some 429
   \<and> sendGptRequest example_deps ''user'' ''sys'' (1 / 5 :: rat) None 10 60000 None
         Gpt4TurboPreview [Inl (JsError ''Internal server error'' (Some 500)), reply ''late'']
     = ([Call \<lparr>model = Gpt4TurboPreview,
               messages = [Message RoleSystem (Plain ''sys''), Message RoleUser (Plain ''user'')],
               max_tokens = 4096, temperature = 1 / 5\<rparr>],
        [reply ''late''], Some (Inl (JsError ''Internal server error'' (Some 500))))
   \<and> sendGptRequest example_deps ''user'' ''sys'' (1 / 5 :: rat) None 0 60000 None
         Gpt4TurboPreview [rate_limited, reply ''late'']
     = ([Call \<lparr>model = Gpt4TurboPreview,
               messages = [Message RoleSystem (Plain ''sys''), Message RoleUser (Plain ''user'')],
               max_tokens = 4096, temperature = 1 / 5\<rparr>],
        [reply ''late''], Some (Inl (JsError ''Rate limit reached'' (Some 429))))"
proof -
  let ?q = "\<lparr>model = Gpt4TurboPreview,
               messages = [Message RoleSystem (Plain ''sys''), Message RoleUser (Plain ''user'')],
               max_tokens = 4096, temperature = 1 / 5 :: rat\<rparr>"
  have q: "build_request example_deps ''user'' ''sys'' (1 / 5 :: rat) None Gpt4TurboPreview = ?q"
    by (simp add: build_request_def getMaxTokensForResponse_def getMaxTokensForResponse_try_def
        example_encode_length padding_of_div Let_def)
  have t: "sendGptRequest_try example_deps ''user'' ''sys'' (1 / 5 :: rat) None None
             Gpt4TurboPreview (Inl err) = ([Call ?q], Inl err)" for err
    by (simp add: sendGptRequest_try_provider_error q)
  have h: "response_status (JsError ''Internal server error'' (Some 500)) \<noteq> Some 429"
    by simp
  from error_propagates_without_retry [OF t, of 10 "JsError ''Internal server error'' (Some 500)"
      60000 "[reply ''late'']"]
    error_propagates_without_retry [OF t, of 0 "JsError ''Rate limit reached'' (Some 429)"
      60000 "[reply ''late'']"]
  show ?thesis
    using t h by (simp add: rate_limited_def del: sendGptRequest.simps)
qed




section \<open>The schema-validated extractor\<close>

text \<open>
  C6, as stated, fails: a schema that rejects every value, the empty array among them,
  does not make the attempt fail when the response is the empty array.  No element is
  there to fail, so the first attempt returns the empty list after one request.
\<close>

theorem empty_array_passes_rejecting_schema:
  "reject_all (JArray []) = Inl ''Rejected''
   \<and> parse example_deps (removeMarkdownCodeblocks example_deps ''[]'') = JArray []
   \<and> sendGptRequestWithSchema example_deps ''user'' ''sys'' reject_all 3 (1 / 5 :: rat) None
        [reply ''[]'', reply ''[]'', reply ''[]'']
      = ([Call \<lparr>model = Gpt4TurboPreview,
                messages = [Message RoleSystem (Plain ''sys''), Message RoleUser (Plain ''user'')],
                max_tokens = 4096, temperature = 1 / 5\<rparr>],
         [reply ''[]'', reply ''[]''], Some (Inr (Many [])))"
proof -
  have v: "validate_response example_deps reject_all (Some ''[]'') = Inr (Many [])"
    by (simp add: validate_response_def example_deps_def)
  have "sendGptRequestWithSchema_loop example_deps ''user'' ''sys'' reject_all 3 (1 / 5 :: rat)
          None 0 (reply ''[]'' # [reply ''[]'', reply ''[]''])
        = ([Call (build_request example_deps ''user'' ''sys'' (1 / 5) None default_model)],
           [reply ''[]'', reply ''[]''], Some (Inr (Many [])))"
    unfolding reply_def
    by (subst loop_accepted [OF _ example_insert, where d = "Many []"]) (simp_all add: v)
  moreover have "parse example_deps (removeMarkdownCodeblocks example_deps ''[]'') = JArray []"
    by (simp add: example_deps_def)
  ultimately show ?thesis
    by (simp add: sendGptRequestWithSchema_def example_request reject_all_def)
qed

text \<open>
  C6, amended. With \<open>maxRetries = 3\<close>, when the provider answers each of three
  attempts with a completion that is empty (no content, or the empty text) or whose
  parsed value the schema rejects (for an array: at least one element fails the schema's
  safe-parse; for any other value: the value fails it), and the event store accepts the
  usage events, the extractor makes exactly three requests, waits never, and throws the
  error "Max retries exceeded for GPT request: " followed by the user prompt.
\<close>

theorem schema_rejects_three_attempts:
  assumes "\<forall>ev. db_events_insert imp ev = None"
    and "\<forall>r \<in> set [r1, r2, r3].
           (case choice_content r of
              None \<Rightarrow> True
            | Some text \<Rightarrow>
                text = [] \<or>
                (case parse imp (removeMarkdownCodeblocks imp text) of
                   JArray infos \<Rightarrow> \<exists>info \<in> set infos. isl (zodSchema info)
                 | info \<Rightarrow> isl (zodSchema info)))"
  shows "\<exists>fx. sendGptRequestWithSchema imp userPrompt systemPrompt zodSchema 3 temp baseEventData
                (Inr r1 # Inr r2 # Inr r3 # rest)
              = (fx, rest,
                 Some (Inl (JsError (''Max retries exceeded for GPT request: '' @ userPrompt) None)))
            \<and> filter is_Call fx
                = replicate 3 (Call (build_request imp userPrompt systemPrompt temp None
                                       default_model))
            \<and> filter is_Wait fx = []"
proof -
  let ?q = "build_request imp userPrompt systemPrompt temp None default_model"
  let ?ins = "\<lambda>r. (case baseEventData of None \<Rightarrow> []
                     | Some d \<Rightarrow> [Insert (build_event d ?q r)])"
  let ?fx = "(Call ?q # ?ins r1) @ (Call ?q # ?ins r2) @ (Call ?q # ?ins r3)"
  have r: "isl (validate_response imp zodSchema (choice_content r1))"
    "isl (validate_response imp zodSchema (choice_content r2))"
    "isl (validate_response imp zodSchema (choice_content r3))"
    using assms(2) by (auto intro!: validate_response_rejects)
  have l3: "sendGptRequestWithSchema_loop imp userPrompt systemPrompt zodSchema 3 temp
              baseEventData 3 rest
            = ([], rest, Some (Inl (max_retries_exceeded userPrompt)))"
    by (simp add: loop_exhausted)
  have l2: "sendGptRequestWithSchema_loop imp userPrompt systemPrompt zodSchema 3 temp
              baseEventData 2 (Inr r3 # rest)
            = (Call ?q # ?ins r3, rest, Some (Inl (max_retries_exceeded userPrompt)))"
    using loop_rejected [OF _ assms(1) r(3), of 2 3 userPrompt systemPrompt temp baseEventData rest]
    by (simp add: l3)
  have l1: "sendGptRequestWithSchema_loop imp userPrompt systemPrompt zodSchema 3 temp
              baseEventData 1 (Inr r2 # Inr r3 # rest)
            = ((Call ?q # ?ins r2) @ (Call ?q # ?ins r3), rest,
               Some (Inl (max_retries_exceeded userPrompt)))"
    using loop_rejected [OF _ assms(1) r(2), of 1 3 userPrompt systemPrompt temp baseEventData
        "Inr r3 # rest"]
    by (simp add: l2)
  have l0: "sendGptRequestWithSchema_loop imp userPrompt systemPrompt zodSchema 3 temp
              baseEventData 0 (Inr r1 # Inr r2 # Inr r3 # rest)
            = (?fx, rest, Some (Inl (max_retries_exceeded userPrompt)))"
    using loop_rejected [OF _ assms(1) r(1), of 0 3 userPrompt systemPrompt temp baseEventData
        "Inr r2 # Inr r3 # rest"]
    by (simp add: l1)
  have calls: "filter is_Call ?fx = replicate 3 (Call ?q)"
    by (simp add: numeral_3_eq_3 split: option.split)
  have waits: "filter is_Wait ?fx = []"
    by (simp split: option.split)
  from l0 calls waits show ?thesis
    unfolding sendGptRequestWithSchema_def max_retries_exceeded_def by blast
qed

theorem schema_rejects_three_attempts_witness:
  "(\<forall>ev. db_events_insert example_deps ev = None)
   \<and> parse example_deps (removeMarkdownCodeblocks example_deps ''[1, null]'')
       = JArray [JNumber 1, JNull]
   \<and> number_schema JNull = Inl ''Expected number''
   \<and> parse example_deps (removeMarkdownCodeblocks example_deps ''not json'') = JUndefined
   \<and> number_schema JUndefined = Inl ''Expected number''
   \<and> (\<exists>fx. sendGptRequestWithSchema example_deps ''user'' ''sys'' number_schema 3 (1 / 5 :: rat)
               None
               [Inr \<lparr>choice_content = Some ''[1, null]'', prompt_tokens = None,
                      completion_tokens = None\<rparr>,
                Inr \<lparr>choice_content = None, prompt_tokens = None, completion_tokens = None\<rparr>,
                Inr \<lparr>choice_content = Some ''not json'', prompt_tokens = None,
                      completion_tokens = None\<rparr>,
                reply ''```[1, 2]```'']
             = (fx, [reply ''```[1, 2]```''],
                Some (Inl (JsError ''Max retries exceeded for GPT request: user'' None)))
           \<and> filter is_Call fx
               = [Call \<lparr>model = Gpt4TurboPreview,
                        messages = [Message RoleSystem (Plain ''sys''),
                                    Message RoleUser (Plain ''user'')],
                        max_tokens = 4096, temperature = 1 / 5\<rparr>,
                  Call \<lparr>model = Gpt4TurboPreview,
                        messages = [Message RoleSystem (Plain ''sys''),
                                    Message RoleUser (Plain ''user'')],
                        max_tokens = 4096, temperature = 1 / 5\<rparr>,
                  Call \<lparr>model = Gpt4TurboPreview,
                        messages = [Message RoleSystem (Plain ''sys''),
                                    Message RoleUser (Plain ''user'')],
                        max_tokens = 4096, temperature = 1 / 5\<rparr>]
           \<and> filter is_Wait fx = [])"
proof -
  let ?r1 = "\<lparr>choice_content = Some ''[1, null]'', prompt_tokens = None,
               completion_tokens = None\<rparr>"
  let ?r2 = "\<lparr>choice_content = None, prompt_tokens = None, completion_tokens = None\<rparr>"
  let ?r3 = "\<lparr>choice_content = Some ''not json'', prompt_tokens = None,
               completion_tokens = None\<rparr>"
  have p: "parse example_deps (removeMarkdownCodeblocks example_deps ''[1, null]'')
             = JArray [JNumber 1, JNull]"
    "parse example_deps (removeMarkdownCodeblocks example_deps ''not json'') = JUndefined"
    by (simp_all add: example_deps_def)
  have n: "number_schema JNull = Inl ''Expected number''"
    "number_schema JUndefined = Inl ''Expected number''"
    by (simp_all add: number_schema_def)
  have h: "\<forall>r \<in> set [?r1, ?r2, ?r3].
             (case choice_content r of
                None \<Rightarrow> True
              | Some text \<Rightarrow>
                  text = [] \<or>
                  (case parse example_deps (removeMarkdownCodeblocks example_deps text) of
                     JArray infos \<Rightarrow> \<exists>info \<in> set infos. isl (number_schema info)
                   | info \<Rightarrow> isl (number_schema info)))"
    by (simp add: p n)
  from schema_rejects_three_attempts [OF example_insert h, where userPrompt = "''user''"
      and systemPrompt = "''sys''" and temp = "1 / 5 :: rat" and baseEventData = None
      and rest = "[reply ''```[1, 2]```'']"]
  show ?thesis
    using example_insert p n
    by (simp add: example_request numeral_3_eq_3 del: sendGptRequest.simps)
qed




text \<open>
  C8. On an attempt (the counter below \<open>maxRetries\<close>) whose completion has a
  non-empty content that, with the code fences removed, parses as an array every
  element of which passes the schema's safe-parse, the extractor returns on that attempt
  the list of the validated data: as long as the array, in the same order, each element
  the data of the corresponding array element.
\<close>

theorem valid_array_returned_in_order:
  assumes "retries < maxRetries" and "\<forall>ev. db_events_insert imp ev = None"
    and "choice_content response = Some text" and "text \<noteq> []"
    and "parse imp (removeMarkdownCodeblocks imp text) = JArray infos"
    and "\<forall>info \<in> set infos. \<not> isl (zodSchema info)"
  shows "\<exists>ds. sendGptRequestWithSchema_loop imp userPrompt systemPrompt zodSchema maxRetries temp
                baseEventData retries (Inr response # rest)
              = (Call (build_request imp userPrompt systemPrompt temp None default_model)
                   # (case baseEventData of None \<Rightarrow> []
                      | Some b \<Rightarrow> [Insert (build_event b
                           (build_request imp userPrompt systemPrompt temp None default_model)
                           response)]),
                 rest, Some (Inr (Many ds)))
            \<and> map Inr ds = map zodSchema infos"
proof -
  let ?ds = "map (\<lambda>info. projr (zodSchema info)) infos"
  have v: "validate_response imp zodSchema (choice_content response) = Inr (Many ?ds)"
    using validate_response_array [OF assms(4,5,6)] assms(3) by simp
  have "map Inr ?ds = map zodSchema infos"
    using assms(6) by (induction infos) simp_all
  with loop_accepted [OF assms(1,2) v, where u = userPrompt and s = systemPrompt
      and temp = temp and b = baseEventData and rest = rest]
  show ?thesis
    by blast
qed

theorem valid_array_returned_in_order_witness:
  "(0::int) < 3
   \<and> (\<forall>ev. db_events_insert example_deps ev = None)
   \<and> choice_content \<lparr>choice_content = Some ''```[1, 2]```'', prompt_tokens = Some 7,
                       completion_tokens = Some 5\<rparr> = Some ''```[1, 2]```''
   \<and> ''```[1, 2]```'' \<noteq> []
   \<and> parse example_deps (removeMarkdownCodeblocks example_deps ''```[1, 2]```'')
       = JArray [JNumber 1, JNumber 2]
   \<and> number_schema (JNumber 1) = Inr 1
   \<and> number_schema (JNumber 2) = Inr 2
   \<and> sendGptRequestWithSchema example_deps ''user'' ''sys'' number_schema 3 (1 / 5 :: rat) None
        [reply ''```[1, 2]```'']
      = ([Call \<lparr>model = Gpt4TurboPreview,
                messages = [Message RoleSystem (Plain ''sys''), Message RoleUser (Plain ''user'')],
                max_tokens = 4096, temperature = 1 / 5\<rparr>],
         [], Some (Inr (Many [1, 2])))"
proof -
  let ?r = "\<lparr>choice_content = Some ''```[1, 2]```'', prompt_tokens = Some 7,
              completion_tokens = Some 5\<rparr>"
  have h1: "(0::int) < 3" by simp
  have h3: "choice_content ?r = Some ''```[1, 2]```''" by simp
  have h4: "''```[1, 2]```'' \<noteq> []" by simp
  have h5: "parse example_deps (removeMarkdownCodeblocks example_deps ''```[1, 2]```'')
              = JArray [JNumber 1, JNumber 2]"
    by (simp add: example_deps_def)
  have h6: "\<forall>info \<in> set [JNumber 1, JNumber 2]. \<not> isl (number_schema info)"
    by (simp add: number_schema_def)
  from valid_array_returned_in_order [OF h1 example_insert h3 h4 h5 h6,
      where userPrompt = "''user''" and systemPrompt = "''sys''" and temp = "1 / 5 :: rat"
        and baseEventData = None and rest = "[]"]
  obtain ds where run: "sendGptRequestWithSchema_loop example_deps ''user'' ''sys'' number_schema 3
                          (1 / 5 :: rat) None 0 [Inr ?r]
                        = ([Call (build_request example_deps ''user'' ''sys'' (1 / 5) None
                                    default_model)],
                           [], Some (Inr (Many ds)))"
    and ds: "map Inr ds = map number_schema [JNumber 1, JNumber 2]"
    by auto
  from ds have "ds = [1, 2]"
    by (auto simp: number_schema_def)
  with run show ?thesis
    using h1 h3 h4 h5 h6 example_insert
    by (simp add: sendGptRequestWithSchema_def reply_def example_request number_schema_def
        del: sendGptRequest.simps)
qed

section \<open>The vision adapter\<close>

text \<open>
  C9. With a non-empty image URL the request the adapter's call issues first has the
  vision model and three messages: the user message with the high-detail image of that
  URL and the template's text, then the system message, then the user message.  With an
  empty URL it has the default text model and exactly two messages, system then user.
\<close>

theorem vision_adapter_first_request:
  "(snapshotUrl \<noteq> [] \<longrightarrow>
      (\<exists>fx. fst (sendGptVisionRequest imp userPrompt systemPrompt snapshotUrl temp baseEventData
                    retries delay (outcome # rest))
             = Call \<lparr>model = Gpt4VisionPreview,
                     messages = [Message RoleUser
                                   (Parts [ImageUrlPart snapshotUrl ''high'',
                                           TextPart (parseTemplate imp ''dev'' ''vision'' ''user'')]),
                                 Message RoleSystem (Plain systemPrompt),
                                 Message RoleUser (Plain userPrompt)],
                     max_tokens = getMaxTokensForResponse imp (userPrompt @ systemPrompt)
                                    Gpt4VisionPreview,
                     temperature = temp\<rparr> # fx))
   \<and> (snapshotUrl = [] \<longrightarrow>
      (\<exists>fx. fst (sendGptVisionRequest imp userPrompt systemPrompt snapshotUrl temp baseEventData
                    retries delay (outcome # rest))
             = Call \<lparr>model = Gpt4TurboPreview,
                     messages = [Message RoleSystem (Plain systemPrompt),
                                 Message RoleUser (Plain userPrompt)],
                     max_tokens = getMaxTokensForResponse imp (userPrompt @ systemPrompt)
                                    Gpt4TurboPreview,
                     temperature = temp\<rparr> # fx))"
proof (intro conjI impI)
  assume url: "snapshotUrl \<noteq> []"
  from sendGptRequest_starts_with_call [of imp userPrompt systemPrompt temp baseEventData
      retries delay "Some (vision_image_prompt imp snapshotUrl)" Gpt4VisionPreview outcome rest]
  show "\<exists>fx. fst (sendGptVisionRequest imp userPrompt systemPrompt snapshotUrl temp baseEventData
                    retries delay (outcome # rest))
             = Call \<lparr>model = Gpt4VisionPreview,
                     messages = [Message RoleUser
                                   (Parts [ImageUrlPart snapshotUrl ''high'',
                                           TextPart (parseTemplate imp ''dev'' ''vision'' ''user'')]),
                                 Message RoleSystem (Plain systemPrompt),
                                 Message RoleUser (Plain userPrompt)],
                     max_tokens = getMaxTokensForResponse imp (userPrompt @ systemPrompt)
                                    Gpt4VisionPreview,
                     temperature = temp\<rparr> # fx"
    using url
    by (simp add: sendGptVisionRequest_def vision_image_prompt_def build_request_def Let_def
        del: sendGptRequest.simps)
next
  assume url: "snapshotUrl = []"
  from sendGptRequest_starts_with_call [of imp userPrompt systemPrompt temp baseEventData
      retries delay None Gpt4TurboPreview outcome rest]
  show "\<exists>fx. fst (sendGptVisionRequest imp userPrompt systemPrompt snapshotUrl temp baseEventData
                    retries delay (outcome # rest))
             = Call \<lparr>model = Gpt4TurboPreview,
                     messages = [Message RoleSystem (Plain systemPrompt),
                                 Message RoleUser (Plain userPrompt)],
                     max_tokens = getMaxTokensForResponse imp (userPrompt @ systemPrompt)
                                    Gpt4TurboPreview,
                     temperature = temp\<rparr> # fx"
    using url
    by (simp add: sendGptVisionRequest_def build_request_def Let_def
        del: sendGptRequest.simps)
qed


theorem vision_adapter_first_request_witness:
  "''https://img/1.png'' \<noteq> []
   \<and> sendGptVisionRequest example_deps ''user'' ''sys'' ''https://img/1.png'' (1 / 5 :: rat) None
        10 60000 [reply ''a cat'']
      = ([Call \<lparr>model = Gpt4VisionPreview,
                messages = [Message RoleUser
                              (Parts [ImageUrlPart ''https://img/1.png'' ''high'',
                                      TextPart ''Describe the image.'']),
                            Message RoleSystem (Plain ''sys''),
                            Message RoleUser (Plain ''user'')],
                max_tokens = 4096, temperature = 1 / 5\<rparr>],
         [], Some (Inr (Some ''a cat'')))
   \<and> sendGptVisionRequest example_deps ''user'' ''sys'' [] (1 / 5 :: rat) None
        10 60000 [reply ''no picture'']
      = ([Call \<lparr>model = Gpt4TurboPreview,
                messages = [Message RoleSystem (Plain ''sys''),
                            Message RoleUser (Plain ''user'')],
                max_tokens = 4096, temperature = 1 / 5\<rparr>],
         [], Some (Inr (Some ''no picture'')))"
proof -
  have g: "getMaxTokensForResponse example_deps ''usersys'' mm = 4096"
    if "mm = Gpt4VisionPreview \<or> mm = Gpt4TurboPreview" for mm
    using that
    by (auto simp: getMaxTokensForResponse_def getMaxTokensForResponse_try_def
        example_encode_length padding_of_div Let_def)
  have t: "parseTemplate example_deps ''dev'' ''vision'' ''user'' = ''Describe the image.''"
    by (simp add: example_deps_def)
  have a: "\<exists>fx. fst (sendGptVisionRequest example_deps ''user'' ''sys'' ''https://img/1.png''
                      (1 / 5 :: rat) None 10 60000 [reply ''a cat''])
            = Call \<lparr>model = Gpt4VisionPreview,
                messages = [Message RoleUser
                              (Parts [ImageUrlPart ''https://img/1.png'' ''high'',
                                      TextPart ''Describe the image.'']),
                            Message RoleSystem (Plain ''sys''),
                            Message RoleUser (Plain ''user'')],
                max_tokens = 4096, temperature = 1 / 5\<rparr> # fx"
    using vision_adapter_first_request [where snapshotUrl = "''https://img/1.png''"
        and imp = example_deps and userPrompt = "''user''" and systemPrompt = "''sys''"
        and temp = "1 / 5 :: rat" and baseEventData = None and retries = 10 and delay = 60000
        and outcome = "reply ''a cat''" and rest = "[]"]
    by (simp add: g t del: sendGptRequest.simps)
  have b: "\<exists>fx. fst (sendGptVisionRequest example_deps ''user'' ''sys'' [] (1 / 5 :: rat) None
                      10 60000 [reply ''no picture''])
            = Call \<lparr>model = Gpt4TurboPreview,
                messages = [Message RoleSystem (Plain ''sys''),
                            Message RoleUser (Plain ''user'')],
                max_tokens = 4096, temperature = 1 / 5\<rparr> # fx"
    using vision_adapter_first_request [where snapshotUrl = "[]"
        and imp = example_deps and userPrompt = "''user''" and systemPrompt = "''sys''"
        and temp = "1 / 5 :: rat" and baseEventData = None and retries = 10 and delay = 60000
        and outcome = "reply ''no picture''" and rest = "[]"]
    by (simp add: g del: sendGptRequest.simps)
  have len: "\<exists>fx rest r. sendGptVisionRequest example_deps ''user'' ''sys'' url (1 / 5 :: rat) None
                      10 60000 [reply answer]
               = ([fx], [], Some (Inr (Some answer)))" for url answer
    by (simp add: sendGptVisionRequest_def reply_def sendGptRequest_try_def Let_def)
  from a len [of "''https://img/1.png''" "''a cat''"]
  have ra: "sendGptVisionRequest example_deps ''user'' ''sys'' ''https://img/1.png''
              (1 / 5 :: rat) None 10 60000 [reply ''a cat'']
            = ([Call \<lparr>model = Gpt4VisionPreview,
                messages = [Message RoleUser
                              (Parts [ImageUrlPart ''https://img/1.png'' ''high'',
                                      TextPart ''Describe the image.'']),
                            Message RoleSystem (Plain ''sys''),
                            Message RoleUser (Plain ''user'')],
                max_tokens = 4096, temperature = 1 / 5\<rparr>],
               [], Some (Inr (Some ''a cat'')))"
    by auto
  from b len [of "[]" "''no picture''"]
  have rb: "sendGptVisionRequest example_deps ''user'' ''sys'' [] (1 / 5 :: rat) None
              10 60000 [reply ''no picture'']
            = ([Call \<lparr>model = Gpt4TurboPreview,
                messages = [Message RoleSystem (Plain ''sys''),
                            Message RoleUser (Plain ''user'')],
                max_tokens = 4096, temperature = 1 / 5\<rparr>],
               [], Some (Inr (Some ''no picture'')))"
    by auto
  from ra rb show ?thesis by simp
qed

end
